theory Spec2Isabelle
  imports Main "HOL-Library.Word"
begin

section \<open>Signaling server (server/src/index.ts)\<close>

text \<open>
  The server keeps two maps, \<open>clients\<close> and \<open>rooms\<close>, and writes JSON frames to the
  sockets of its clients. The model passes the two maps explicitly and records every
  \<open>socket.send\<close> call, in order, in \<open>outbox\<close> as a pair (receiving client, message).
  A JavaScript \<open>Set\<close> of strings iterates in insertion order, so the members of a room are
  a list without repetition. Console logging is left out.
\<close>

subsection \<open>Messages (server/src/types.ts)\<close>


datatype ServerMessage =
    ConnectedMessage string
  | RoomCreatedMessage string
  | RoomJoinedMessage string bool
  | PeerJoinedMessage
  | PeerLeftMessage
  | ErrorMessage string string
  | RelayedOfferMessage string
  | RelayedAnswerMessage string
  | RelayedIceCandidateMessage string "string option" "int option"




subsection \<open>State\<close>

datatype ReadyState = CONNECTING | OPEN | CLOSING | CLOSED

record Client =
  socket :: ReadyState
  roomId :: "string option"

record Room =
  room_id :: string
  room_clients :: "string list"
  creatorId :: string

record Server =
  clients :: "string \<rightharpoonup> Client"
  rooms :: "string \<rightharpoonup> Room"
  outbox :: "(string \<times> ServerMessage) list"

text \<open>
  JavaScript truthiness of a \<open>string | null\<close>: \<open>null\<close> and the empty string are
  falsy. The guards \<open>if (client.roomId)\<close> and \<open>if (peerId)\<close> test exactly this.
\<close>

definition truthy :: "string option \<Rightarrow> bool" where
  "truthy v = (case v of None \<Rightarrow> False | Some s \<Rightarrow> s \<noteq> [])"

text \<open>\<open>toUpperCase\<close> on the ASCII letters; every other character is kept.\<close>

definition toUpperCase_char :: "char \<Rightarrow> char" where
  "toUpperCase_char c =
     (case map_of (zip ''abcdefghijklmnopqrstuvwxyz'' ''ABCDEFGHIJKLMNOPQRSTUVWXYZ'') c of
        Some u \<Rightarrow> u
      | None \<Rightarrow> c)"

definition toUpperCase :: "string \<Rightarrow> string" where
  "toUpperCase s = map toUpperCase_char s"

text \<open>\<open>Set.prototype.add\<close> and \<open>Set.prototype.delete\<close> on the insertion-ordered list.\<close>

definition set_add :: "string \<Rightarrow> string list \<Rightarrow> string list" where
  "set_add x xs = (if x \<in> set xs then xs else xs @ [x])"


subsection \<open>Operations\<close>

definition send :: "string \<Rightarrow> ServerMessage \<Rightarrow> Server \<Rightarrow> Server" where
  "send clientId message st =
     (case clients st clientId of
        None \<Rightarrow> st
      | Some client \<Rightarrow>
          if socket client = OPEN
          then st\<lparr>outbox := outbox st @ [(clientId, message)]\<rparr>
          else st)"

definition sendError :: "string \<Rightarrow> string \<Rightarrow> string \<Rightarrow> Server \<Rightarrow> Server" where
  "sendError clientId code message st = send clientId (ErrorMessage code message) st"

text \<open>
  \<open>randomUUID()\<close> is the environment's: the drawn UUID string is a parameter of every
  operation that draws one.
\<close>

definition generateRoomId :: "string \<Rightarrow> string" where
  "generateRoomId uuid = toUpperCase (take 6 uuid)"

definition getPeerInRoom :: "string \<Rightarrow> string \<Rightarrow> Server \<Rightarrow> string option" where
  "getPeerInRoom rid excludeClientId st =
     (case rooms st rid of
        None \<Rightarrow> None
      | Some room \<Rightarrow> find (\<lambda>i. i \<noteq> excludeClientId) (room_clients room))"

definition handleCreateRoom :: "string \<Rightarrow> string \<Rightarrow> Server \<Rightarrow> Server" where
  "handleCreateRoom uuid clientId st =
     (case clients st clientId of
        None \<Rightarrow> st
      | Some client \<Rightarrow>
          if truthy (roomId client)
          then sendError clientId ''ALREADY_IN_ROOM''
                 ''Leave current room before creating a new one'' st
          else
            let rid = generateRoomId uuid;
                room = \<lparr>room_id = rid, room_clients = [clientId], creatorId = clientId\<rparr>;
                st1 = st\<lparr>rooms := (rooms st)(rid \<mapsto> room)\<rparr>;
                st2 = st1\<lparr>clients := (clients st1)(clientId \<mapsto> client\<lparr>roomId := Some rid\<rparr>)\<rparr>
            in send clientId (RoomCreatedMessage rid) st2)"

definition handleJoinRoom :: "string \<Rightarrow> string \<Rightarrow> Server \<Rightarrow> Server" where
  "handleJoinRoom clientId rid st =
     (case clients st clientId of
        None \<Rightarrow> st
      | Some client \<Rightarrow>
          if truthy (roomId client)
          then sendError clientId ''ALREADY_IN_ROOM''
                 ''Leave current room before joining another'' st
          else
            (case rooms st (toUpperCase rid) of
               None \<Rightarrow>
                 sendError clientId ''ROOM_NOT_FOUND'' ''Room does not exist or has expired'' st
             | Some room \<Rightarrow>
                 if length (room_clients room) \<ge> 2
                 then sendError clientId ''ROOM_FULL'' ''Room already has two participants'' st
                 else
                   let room' = room\<lparr>room_clients := set_add clientId (room_clients room)\<rparr>;
                       st1 = st\<lparr>rooms := (rooms st)(toUpperCase rid \<mapsto> room')\<rparr>;
                       st2 = st1\<lparr>clients :=
                               (clients st1)(clientId \<mapsto> client\<lparr>roomId := Some (room_id room)\<rparr>)\<rparr>;
                       st3 = send clientId (RoomJoinedMessage (room_id room) False) st2;
                       peerId = getPeerInRoom (room_id room) clientId st3
                   in if truthy peerId then send (the peerId) PeerJoinedMessage st3 else st3))"




subsection \<open>A server state used in the examples\<close>

definition ex_server :: Server where
  "ex_server =
     \<lparr>clients = [''alice'' \<mapsto> \<lparr>socket = OPEN, roomId = Some ''ABCDEF''\<rparr>,
                 ''bob'' \<mapsto> \<lparr>socket = OPEN, roomId = None\<rparr>,
                 ''carol'' \<mapsto> \<lparr>socket = OPEN, roomId = Some ''XYZ123''\<rparr>,
                 ''dave'' \<mapsto> \<lparr>socket = OPEN, roomId = Some ''XYZ123''\<rparr>],
      rooms = [''ABCDEF'' \<mapsto>
                 \<lparr>room_id = ''ABCDEF'', room_clients = [''alice''], creatorId = ''alice''\<rparr>,
               ''XYZ123'' \<mapsto>
                 \<lparr>room_id = ''XYZ123'', room_clients = [''carol'', ''dave''],
                    creatorId = ''carol''\<rparr>],
      outbox = []\<rparr>"


section \<open>Chunk encryption (client/src/lib/crypto/encryption.ts)\<close>

type_synonym byte = "8 word"
type_synonym bytes = "byte list"

text \<open>
  AES-256-GCM itself is the browser's (\<open>crypto.subtle\<close>): the model takes it as a
  parameter, a pair of functions from key, IV and data. Encryption of a chunk with a
  valid key and a 12-byte IV does not fail; decryption fails (\<open>None\<close>) when the tag does
  not match. A \<open>CryptoKey\<close> is represented by its raw bytes.
\<close>

record WebCrypto =
  aes_encrypt :: "bytes \<Rightarrow> bytes \<Rightarrow> bytes \<Rightarrow> bytes"
  aes_decrypt :: "bytes \<Rightarrow> bytes \<Rightarrow> bytes \<Rightarrow> bytes option"

text \<open>
  Big-endian byte strings, as \<open>DataView.setUint32\<close>, \<open>setBigUint64\<close> and \<open>getUint32\<close>
  write and read them: \<open>be_bytes k n\<close> is the \<open>k\<close> low-order bytes of \<open>n\<close>, most
  significant first (a value that does not fit wraps around), \<open>be_nat\<close> reads them back.
\<close>

fun be_bytes :: "nat \<Rightarrow> nat \<Rightarrow> bytes" where
  "be_bytes 0 n = []"
| "be_bytes (Suc k) n = be_bytes k (n div 256) @ [of_nat n]"

definition be_nat :: "bytes \<Rightarrow> nat" where
  "be_nat bs = foldl (\<lambda>a b. a * 256 + unat b) 0 bs"

definition AES_KEY_LENGTH :: nat where "AES_KEY_LENGTH = 256"
definition IV_LENGTH :: nat where "IV_LENGTH = 12"
definition SESSION_ID_LENGTH :: nat where "SESSION_ID_LENGTH = 4"

record EncryptionManager =
  key :: "bytes option"
  sessionId :: bytes
  counter :: nat

text \<open>
  The constructor and \<open>reset\<close> fill \<open>sessionId\<close> with \<open>SESSION_ID_LENGTH\<close> random bytes;
  \<open>generateKey\<close> draws a random key. The drawn bytes are parameters.
\<close>

definition new_EncryptionManager :: "bytes \<Rightarrow> EncryptionManager" where
  "new_EncryptionManager randomBytes = \<lparr>key = None, sessionId = randomBytes, counter = 0\<rparr>"

definition generateKey :: "bytes \<Rightarrow> EncryptionManager \<Rightarrow> bytes \<times> EncryptionManager" where
  "generateKey randomKey em = (randomKey, em\<lparr>key := Some randomKey\<rparr>)"

text \<open>\<open>crypto.subtle.importKey\<close> rejects raw AES keys that are not 128, 192 or 256 bits long.\<close>

definition importKey :: "bytes \<Rightarrow> EncryptionManager \<Rightarrow> string + EncryptionManager" where
  "importKey keyData em =
     (if length keyData \<in> {16, 24, 32} then Inr (em\<lparr>key := Some keyData\<rparr>)
      else Inl ''DataError'')"

definition generateIV :: "EncryptionManager \<Rightarrow> bytes \<times> EncryptionManager" where
  "generateIV em =
     (let iv = sessionId em @ be_bytes 8 (counter em)
      in (iv, em\<lparr>counter := counter em + 1\<rparr>))"

definition encryptChunk ::
  "WebCrypto \<Rightarrow> bytes \<Rightarrow> EncryptionManager \<Rightarrow> string + ((bytes \<times> bytes) \<times> EncryptionManager)" where
  "encryptChunk aes data em =
     (case key em of
        None \<Rightarrow> Inl ''Encryption key not initialized''
      | Some k \<Rightarrow>
          let (iv, em') = generateIV em
          in Inr ((aes_encrypt aes k iv data, iv), em'))"

definition decryptChunk ::
  "WebCrypto \<Rightarrow> bytes \<Rightarrow> bytes \<Rightarrow> EncryptionManager \<Rightarrow> string + bytes" where
  "decryptChunk aes encrypted iv em =
     (case key em of
        None \<Rightarrow> Inl ''Encryption key not initialized''
      | Some k \<Rightarrow>
          (case aes_decrypt aes k iv encrypted of
             None \<Rightarrow> Inl ''OperationError''
           | Some decrypted \<Rightarrow> Inr decrypted))"

definition EM_reset :: "bytes \<Rightarrow> EncryptionManager \<Rightarrow> EncryptionManager" where
  "EM_reset randomBytes em = \<lparr>key = None, sessionId = randomBytes, counter = 0\<rparr>"

text \<open>
  The life of one manager as a sequence of calls. Every encryption that is carried out
  is recorded with the key, the IV and the plaintext it used.
\<close>

datatype EncryptionCall =
    CallGenerateKey bytes
  | CallImportKey bytes
  | CallEncryptChunk bytes
  | CallDecryptChunk bytes bytes
  | CallReset bytes

record Encryption =
  used_key :: bytes
  used_iv :: bytes
  used_plaintext :: bytes

fun is_CallReset :: "EncryptionCall \<Rightarrow> bool" where
  "is_CallReset (CallReset _) = True"
| "is_CallReset _ = False"

fun em_call ::
  "WebCrypto \<Rightarrow> EncryptionManager \<times> Encryption list \<Rightarrow> EncryptionCall
     \<Rightarrow> EncryptionManager \<times> Encryption list" where
  "em_call aes (em, log) (CallGenerateKey k) = (snd (generateKey k em), log)"
| "em_call aes (em, log) (CallImportKey k) =
     (case importKey k em of Inl _ \<Rightarrow> (em, log) | Inr em' \<Rightarrow> (em', log))"
| "em_call aes (em, log) (CallEncryptChunk data) =
     (case encryptChunk aes data em of
        Inl _ \<Rightarrow> (em, log)
      | Inr ((encrypted, iv), em') \<Rightarrow>
          (em', log @ [\<lparr>used_key = the (key em), used_iv = iv, used_plaintext = data\<rparr>]))"
| "em_call aes (em, log) (CallDecryptChunk encrypted iv) = (em, log)"
| "em_call aes (em, log) (CallReset r) = (EM_reset r em, log)"

definition em_calls ::
  "WebCrypto \<Rightarrow> EncryptionCall list \<Rightarrow> EncryptionManager \<times> Encryption list
     \<Rightarrow> EncryptionManager \<times> Encryption list" where
  "em_calls aes calls s = foldl (em_call aes) s calls"

text \<open>A toy cipher for the examples: it satisfies decrypt-after-encrypt and nothing else.\<close>

definition toy_aes :: WebCrypto where
  "toy_aes =
     \<lparr>aes_encrypt = (\<lambda>k iv p. rev p @ take 1 k),
      aes_decrypt = (\<lambda>k iv c. if c \<noteq> [] \<and> [last c] = take 1 k then Some (rev (butlast c)) else None)\<rparr>"

definition ex_key :: bytes where
  "ex_key = replicate 32 7"

(*DEFS-END*)

section \<open>Properties of the signaling server\<close>

lemmas ex_server_simps =
  ex_server_def toUpperCase_def toUpperCase_char_def generateRoomId_def truthy_def

lemma length_generateRoomId: "length (generateRoomId uuid) = min 6 (length uuid)"
  by (simp add: generateRoomId_def toUpperCase_def min_def)

text \<open>
  Claim C3, as the code has it. A client that is registered, whose socket is open and
  that is in no room sends create-room, and \<open>uuid\<close> is the UUID drawn for the code. The
  server stores a room under the first six characters of the UUID, uppercased, with the
  requester as sole member and as creator, points the requester's \<open>roomId\<close> at it, and
  sends room-created to the requester and to nobody else. The code is not compared with
  the codes of the existing rooms: every room under a different code is left as it was,
  and a room under the same code is replaced.
\<close>

theorem handleCreateRoom_stores_generated_code:
  assumes "clients st cid = Some c" and "\<not> truthy (roomId c)" and "socket c = OPEN"
    and "6 \<le> length uuid"
  shows "handleCreateRoom uuid cid st =
           st\<lparr>rooms := (rooms st)(generateRoomId uuid \<mapsto>
                  \<lparr>room_id = generateRoomId uuid, room_clients = [cid], creatorId = cid\<rparr>),
              clients := (clients st)(cid \<mapsto> c\<lparr>roomId := Some (generateRoomId uuid)\<rparr>),
              outbox := outbox st @ [(cid, RoomCreatedMessage (generateRoomId uuid))]\<rparr>
         \<and> generateRoomId uuid = toUpperCase (take 6 uuid)
         \<and> length (generateRoomId uuid) = 6
         \<and> (\<forall>k. k \<noteq> generateRoomId uuid \<longrightarrow>
                rooms (handleCreateRoom uuid cid st) k = rooms st k)"
  using assms
  by (simp add: handleCreateRoom_def send_def sendError_def Let_def length_generateRoomId)
     (simp add: generateRoomId_def)

text \<open>
  The theorem at a concrete request: bob, in no room, draws a UUID whose first six
  characters are not the code of a room; the room of alice is untouched.
\<close>

theorem handleCreateRoom_stores_generated_code_witness:
  "handleCreateRoom ''0fe3b2a1-0000-4000-8000-000000000000'' ''bob'' ex_server =
     ex_server\<lparr>rooms := (rooms ex_server)(''0FE3B2'' \<mapsto>
                  \<lparr>room_id = ''0FE3B2'', room_clients = [''bob''], creatorId = ''bob''\<rparr>),
              clients := (clients ex_server)(''bob'' \<mapsto>
                  \<lparr>socket = OPEN, roomId = Some ''0FE3B2''\<rparr>),
              outbox := [(''bob'', RoomCreatedMessage ''0FE3B2'')]\<rparr>
   \<and> rooms (handleCreateRoom ''0fe3b2a1-0000-4000-8000-000000000000'' ''bob'' ex_server) ''ABCDEF''
       = rooms ex_server ''ABCDEF''"
  using handleCreateRoom_stores_generated_code
          [of ex_server "''bob''" "\<lparr>socket = OPEN, roomId = None\<rparr>"
              "''0fe3b2a1-0000-4000-8000-000000000000''"]
  by (simp add: ex_server_simps)

text \<open>
  Claim C3 as the specification states it (the code is distinct from that of every
  existing room, no existing room is overwritten) fails: bob draws a UUID that starts
  with \<open>abcdef\<close> while alice's room \<open>ABCDEF\<close> exists. Afterwards the room under
  \<open>ABCDEF\<close> is bob's, alice is no longer a member of it, and her client record still
  points at that code.
\<close>

theorem handleCreateRoom_fresh_counterexample:
  "clients ex_server ''bob'' = Some \<lparr>socket = OPEN, roomId = None\<rparr>
   \<and> rooms ex_server ''ABCDEF'' =
       Some \<lparr>room_id = ''ABCDEF'', room_clients = [''alice''], creatorId = ''alice''\<rparr>
   \<and> generateRoomId ''abcdef12-0000-4000-8000-000000000000'' = ''ABCDEF''
   \<and> rooms (handleCreateRoom ''abcdef12-0000-4000-8000-000000000000'' ''bob'' ex_server) ''ABCDEF'' =
       Some \<lparr>room_id = ''ABCDEF'', room_clients = [''bob''], creatorId = ''bob''\<rparr>
   \<and> clients (handleCreateRoom ''abcdef12-0000-4000-8000-000000000000'' ''bob'' ex_server) ''alice'' =
       Some \<lparr>socket = OPEN, roomId = Some ''ABCDEF''\<rparr>"
  by (simp add: ex_server_simps handleCreateRoom_def send_def Let_def)

text \<open>
  Claim C5. A registered client with an open socket sends join-room with the code
  \<open>rid\<close>; the room is looked up under \<open>toUpperCase rid\<close>. The four outcomes, in the
  order the code tests them: the requester already has a room (ALREADY_IN_ROOM); no room
  under the uppercased code (ROOM_NOT_FOUND); the room has two members or more (ROOM_FULL);
  otherwise, for a room stored under its own id with one other member \<open>p\<close>, the requester
  is added after \<open>p\<close>, its \<open>roomId\<close> is set, and the server sends room-joined with
  \<open>isInitiator = false\<close> to the joiner first and then peer-joined to \<open>p\<close> (when the
  socket of \<open>p\<close> is open). In the three error cases nothing but the outbox changes, and it
  grows by exactly the one error.
\<close>

theorem handleJoinRoom_replies:
  assumes "clients st cid = Some c" and "socket c = OPEN"
  shows
    "(truthy (roomId c) \<longrightarrow>
        handleJoinRoom cid rid st =
          st\<lparr>outbox := outbox st @
            [(cid, ErrorMessage ''ALREADY_IN_ROOM'' ''Leave current room before joining another'')]\<rparr>)
   \<and> (\<not> truthy (roomId c) \<and> rooms st (toUpperCase rid) = None \<longrightarrow>
        handleJoinRoom cid rid st =
          st\<lparr>outbox := outbox st @
            [(cid, ErrorMessage ''ROOM_NOT_FOUND'' ''Room does not exist or has expired'')]\<rparr>)
   \<and> (\<forall>room. \<not> truthy (roomId c) \<and> rooms st (toUpperCase rid) = Some room
          \<and> 2 \<le> length (room_clients room) \<longrightarrow>
        handleJoinRoom cid rid st =
          st\<lparr>outbox := outbox st @
            [(cid, ErrorMessage ''ROOM_FULL'' ''Room already has two participants'')]\<rparr>)
   \<and> (\<forall>room p pc. \<not> truthy (roomId c) \<and> rooms st (toUpperCase rid) = Some room
          \<and> room_id room = toUpperCase rid \<and> room_clients room = [p]
          \<and> p \<noteq> cid \<and> p \<noteq> [] \<and> clients st p = Some pc \<longrightarrow>
        handleJoinRoom cid rid st =
          st\<lparr>rooms := (rooms st)(toUpperCase rid \<mapsto> room\<lparr>room_clients := [p, cid]\<rparr>),
             clients := (clients st)(cid \<mapsto> c\<lparr>roomId := Some (toUpperCase rid)\<rparr>),
             outbox := outbox st @
               (cid, RoomJoinedMessage (toUpperCase rid) False) #
               (if socket pc = OPEN then [(p, PeerJoinedMessage)] else [])\<rparr>)"
  using assms
  by (auto simp add: handleJoinRoom_def send_def sendError_def Let_def getPeerInRoom_def
        set_add_def truthy_def)

text \<open>One request for each of the four outcomes, the last with a code in lower case.\<close>

theorem handleJoinRoom_replies_witness:
  "outbox (handleJoinRoom ''alice'' ''xyz123'' ex_server) =
     [(''alice'', ErrorMessage ''ALREADY_IN_ROOM'' ''Leave current room before joining another'')]
   \<and> outbox (handleJoinRoom ''bob'' ''nosuch'' ex_server) =
     [(''bob'', ErrorMessage ''ROOM_NOT_FOUND'' ''Room does not exist or has expired'')]
   \<and> outbox (handleJoinRoom ''bob'' ''xyz123'' ex_server) =
     [(''bob'', ErrorMessage ''ROOM_FULL'' ''Room already has two participants'')]
   \<and> outbox (handleJoinRoom ''bob'' ''abcdef'' ex_server) =
     [(''bob'', RoomJoinedMessage ''ABCDEF'' False), (''alice'', PeerJoinedMessage)]
   \<and> rooms (handleJoinRoom ''bob'' ''abcdef'' ex_server) ''ABCDEF'' =
     Some \<lparr>room_id = ''ABCDEF'', room_clients = [''alice'', ''bob''], creatorId = ''alice''\<rparr>"
  using handleJoinRoom_replies
          [of ex_server "''alice''" "\<lparr>socket = OPEN, roomId = Some ''ABCDEF''\<rparr>" "''xyz123''"]
        handleJoinRoom_replies
          [of ex_server "''bob''" "\<lparr>socket = OPEN, roomId = None\<rparr>" "''nosuch''"]
        handleJoinRoom_replies
          [of ex_server "''bob''" "\<lparr>socket = OPEN, roomId = None\<rparr>" "''xyz123''"]
        handleJoinRoom_replies
          [of ex_server "''bob''" "\<lparr>socket = OPEN, roomId = None\<rparr>" "''abcdef''"]
  by (simp add: ex_server_simps)



end
